theory Spec2Isabelle
  imports Main
begin

section \<open>Go strings and run-time panics\<close>

text \<open>
  A Go \<^verbatim>\<open>string\<close> is a sequence of bytes and \<^verbatim>\<open>len\<close> counts bytes, so it is
  modelled as \<^typ>\<open>string\<close> (a list of 8-bit characters). Indexing and slicing a
  string out of range is a run-time panic in Go; the model makes the panic a value.
\<close>

datatype panic =
    IndexOutOfRange int nat
  | SliceBoundsOutOfRange int nat

text \<open>\<^verbatim>\<open>s[i]\<close>: panics unless \<open>0 \<le> i < len(s)\<close>.\<close>

definition index_at :: "string \<Rightarrow> int \<Rightarrow> panic + char" where
  "index_at s i =
     (if 0 \<le> i \<and> i < int (length s) then Inr (s ! nat i)
      else Inl (IndexOutOfRange i (length s)))"

text \<open>\<^verbatim>\<open>s[i:]\<close>: panics unless \<open>0 \<le> i \<le> len(s)\<close>.\<close>

definition slice_from :: "string \<Rightarrow> int \<Rightarrow> panic + string" where
  "slice_from s i =
     (if 0 \<le> i \<and> i \<le> int (length s) then Inr (drop (nat i) s)
      else Inl (SliceBoundsOutOfRange i (length s)))"

text \<open>\<^verbatim>\<open>s[:j]\<close>: panics unless \<open>0 \<le> j \<le> len(s)\<close>.\<close>

definition slice_to :: "string \<Rightarrow> int \<Rightarrow> panic + string" where
  "slice_to s j =
     (if 0 \<le> j \<and> j \<le> int (length s) then Inr (take (nat j) s)
      else Inl (SliceBoundsOutOfRange j (length s)))"

text \<open>
  \<^verbatim>\<open>strings.LastIndex(s, substr)\<close> of the Go standard library, from its
  documentation: the index of the last instance of \<open>substr\<close> in \<open>s\<close>, or \<open>-1\<close> if
  \<open>substr\<close> is not present in \<open>s\<close>. An instance in the tail of \<open>s\<close> is later than one at
  the head, so the tail is asked first.
\<close>

fun LastIndex :: "string \<Rightarrow> string \<Rightarrow> int" where
  "LastIndex [] substr = (if substr = [] then 0 else - 1)"
| "LastIndex (c # s) substr =
     (let r = LastIndex s substr in
      if 0 \<le> r then r + 1
      else if take (length substr) (c # s) = substr then 0
      else - 1)"

section \<open>Path normalisation\<close>

text \<open>
  \<^verbatim>\<open>
  func trimLeading(file string) string {
      if len(file) == 0 { return file }
      if file[0] == '/' { return file[1:] }
      return file
  }
  \<close>
\<close>

definition trimLeading :: "string \<Rightarrow> panic + string" where
  "trimLeading file =
     (if length file = 0 then Inr file
      else case index_at file 0 of
             Inl p \<Rightarrow> Inl p
           | Inr c \<Rightarrow> if c = CHR ''/'' then slice_from file 1 else Inr file)"

text \<open>
  \<^verbatim>\<open>
  func trimName(file string) string {
      slashIndex := strings.LastIndex(file, "/")
      if slashIndex < 0 { return file }
      name := file[slashIndex+1:]
      return name
  }
  \<close>
\<close>

definition trimName :: "string \<Rightarrow> panic + string" where
  "trimName file =
     (let slashIndex = LastIndex file ''/'' in
      if slashIndex < 0 then Inr file
      else slice_from file (slashIndex + 1))"

section \<open>Errors, collaborators and observable effects\<close>

text \<open>
  A non-nil Go \<^verbatim>\<open>error\<close>. \<open>External\<close> is an error produced by a collaborator (the YAML
  library, the namespace client, a provider constructor) with its message;
  \<open>Wrap cause msg\<close> is \<^verbatim>\<open>errors.Wrap(cause, msg)\<close> and \<open>Errorf msg\<close> is
  \<^verbatim>\<open>errors.Errorf\<close> with the format already filled in, both of \<^verbatim>\<open>github.com/pkg/errors\<close>.
  A possibly nil \<^verbatim>\<open>error\<close> is an \<open>error option\<close>.
\<close>

datatype error =
    External string
  | Wrap error string
  | Errorf string

text \<open>The \<^verbatim>\<open>Error()\<close> method: a wrapped error prints its context, a colon and its cause.\<close>

fun Error :: "error \<Rightarrow> string" where
  "Error (External msg) = msg"
| "Error (Wrap cause msg) = msg @ '': '' @ Error cause"
| "Error (Errorf msg) = msg"

text \<open>
  \<^verbatim>\<open>type StorageProvider string\<close> with its three constants, and the envelope
  \<^verbatim>\<open>StorageConfig{Type, Config}\<close>, whose \<^verbatim>\<open>Config interface{}\<close> is an untyped document \<open>'c\<close>.
\<close>

type_synonym StorageProvider = string

definition S3 :: StorageProvider where
  "S3 = ''S3''"

definition GCS :: StorageProvider where
  "GCS = ''GCS''"

definition AZURE :: StorageProvider where
  "AZURE = ''AZURE''"

record 'c StorageConfig =
  Type :: StorageProvider
  Config :: 'c

text \<open>The three provider constructors of the package, and what a run can be observed to do.\<close>

datatype constructor = NewS3Storage | NewGCSStorage | NewAzureStorage

datatype event =
    LogErrorf string
  | Println string
  | Invoke constructor string

text \<open>
  The code that \<^verbatim>\<open>bucketstorage.go\<close> calls and that lives outside it is a parameter of the
  model: \<^verbatim>\<open>yaml.UnmarshalStrict\<close> into a \<^verbatim>\<open>StorageConfig\<close> (its error, or the decoded
  envelope), \<^verbatim>\<open>yaml.Marshal\<close> of the nested document, \<^verbatim>\<open>env.GetClusterID()\<close>, the Unicode
  branch of \<^verbatim>\<open>strings.ToUpper\<close>, and the provider constructors, which return a Go pair
  \<^verbatim>\<open>(Storage, error)\<close> of a possibly nil handle \<open>'s\<close> and a possibly nil error.
\<close>

record ('c, 's) collaborators =
  UnmarshalStrict :: "string \<Rightarrow> error + 'c StorageConfig"
  Marshal :: "'c \<Rightarrow> error + string"
  GetClusterID :: string
  UnicodeToUpper :: "string \<Rightarrow> string"
  construct :: "constructor \<Rightarrow> string \<Rightarrow> 's option \<times> error option"

text \<open>
  \<^verbatim>\<open>v1.NamespaceInterface\<close>, of which only \<^verbatim>\<open>Get(ctx, name, opts)\<close> is used: the lookup of
  a namespace by name gives an error or the namespace, of which only the UID is read.
\<close>

type_synonym NamespaceInterface = "string \<Rightarrow> error + string"

text \<open>
  \<^verbatim>\<open>strings.ToUpper\<close> of the Go standard library: a string of ASCII bytes only has each
  of \<open>a..z\<close> moved down by \<open>'a' - 'A'\<close>; any other string goes through
  \<^verbatim>\<open>Map(unicode.ToUpper, s)\<close>, here the parameter \<open>unicodeUpper\<close>.
\<close>

definition upper_byte :: "char \<Rightarrow> char" where
  "upper_byte c =
     (if (97::nat) \<le> of_char c \<and> of_char c \<le> (122::nat)
      then char_of (of_char c - (32::nat)) else c)"

definition ToUpper :: "(string \<Rightarrow> string) \<Rightarrow> string \<Rightarrow> string" where
  "ToUpper unicodeUpper s =
     (if list_all (\<lambda>c. of_char c < (128::nat)) s then map upper_byte s
      else unicodeUpper s)"

section \<open>Cluster identifier\<close>

text \<open>
  \<^verbatim>\<open>
  func getClusterIdentifier(namespaces v1.NamespaceInterface) string {
      clusterID := env.GetClusterID()
      ns, err := namespaces.Get(context.Background(), "kube-system", metav1.GetOptions{})
      if err != nil {
          log.Errorf("Unable to get kube-system namespace: %s", err.Error())
          return ""
      }
      if clusterID != "" {
          return string(ns.UID)[:5] + "-" + clusterID
      }
      return string(ns.UID)[:10]
  }
  \<close>
  The result is what was logged, and the returned string or the panic of a slice.
\<close>

definition getClusterIdentifier ::
  "('c, 's) collaborators \<Rightarrow> NamespaceInterface \<Rightarrow> event list \<times> (panic + string)" where
  "getClusterIdentifier env namespaces =
     (let clusterID = GetClusterID env in
      case namespaces ''kube-system'' of
        Inl err \<Rightarrow>
          ([LogErrorf (''Unable to get kube-system namespace: '' @ Error err)], Inr [])
      | Inr uid \<Rightarrow>
          if clusterID \<noteq> [] then
            (case slice_to uid 5 of
               Inl p \<Rightarrow> ([], Inl p)
             | Inr pre \<Rightarrow> ([], Inr (pre @ ''-'' @ clusterID)))
          else ([], slice_to uid 10))"

section \<open>Provider dispatch\<close>

text \<open>
  The \<^verbatim>\<open>switch\<close> of \<^verbatim>\<open>NewBucketStorage\<close> over the upper-cased tag: the constructor of
  the matching \<^verbatim>\<open>case\<close>, or none for \<^verbatim>\<open>default\<close>.
\<close>

definition provider_case :: "string \<Rightarrow> constructor option" where
  "provider_case tag =
     (if tag = S3 then Some NewS3Storage
      else if tag = GCS then Some NewGCSStorage
      else if tag = AZURE then Some NewAzureStorage
      else None)"

text \<open>
  \<^verbatim>\<open>
  func NewBucketStorage(namespaces v1.NamespaceInterface, config []byte) (Storage, error) {
      storageConfig := &StorageConfig{}
      if err := yaml.UnmarshalStrict(config, storageConfig); err != nil {
          return nil, errors.Wrap(err, "parsing config YAML file")
      }
      config, err := yaml.Marshal(storageConfig.Config)
      if err != nil {
          return nil, errors.Wrap(err, "marshal content of storage configuration")
      }
      clusterID := getClusterIdentifier(namespaces)
      fmt.Println(clusterID)
      var storage Storage
      switch strings.ToUpper(string(storageConfig.Type)) {
      case string(S3):    storage, err = NewS3Storage(config)
      case string(GCS):   storage, err = NewGCSStorage(config)
      case string(AZURE): storage, err = NewAzureStorage(config)
      default:
          return nil, errors.Errorf("storage with type %s is not supported", storageConfig.Type)
      }
      if err != nil {
          return nil, errors.Wrap(err, fmt.Sprintf("create %s client", storageConfig.Type))
      }
      return storage, nil
  }
  \<close>
  The result is the events of the run in order, and the returned pair or the panic.
\<close>

definition NewBucketStorage ::
  "('c, 's) collaborators \<Rightarrow> NamespaceInterface \<Rightarrow> string
     \<Rightarrow> event list \<times> (panic + 's option \<times> error option)" where
  "NewBucketStorage env namespaces config =
     (case UnmarshalStrict env config of
        Inl err \<Rightarrow> ([], Inr (None, Some (Wrap err ''parsing config YAML file'')))
      | Inr storageConfig \<Rightarrow>
          (case Marshal env (Config storageConfig) of
             Inl err \<Rightarrow>
               ([], Inr (None, Some (Wrap err ''marshal content of storage configuration'')))
           | Inr payload \<Rightarrow>
               (case getClusterIdentifier env namespaces of
                  (logged, Inl p) \<Rightarrow> (logged, Inl p)
                | (logged, Inr clusterID) \<Rightarrow>
                    (let out = logged @ [Println clusterID] in
                     case provider_case (ToUpper (UnicodeToUpper env) (Type storageConfig)) of
                       None \<Rightarrow>
                         (out, Inr (None, Some (Errorf
                            (''storage with type '' @ Type storageConfig @ '' is not supported''))))
                     | Some new \<Rightarrow>
                         (case construct env new payload of
                            (storage, Some err) \<Rightarrow>
                              (out @ [Invoke new payload],
                               Inr (None, Some (Wrap err
                                 (''create '' @ Type storageConfig @ '' client''))))
                          | (storage, None) \<Rightarrow>
                              (out @ [Invoke new payload], Inr (storage, None)))))))"

text \<open>The provider constructors a run invoked, in order, each with its argument.\<close>

fun invocations :: "event list \<Rightarrow> (constructor \<times> string) list" where
  "invocations [] = []"
| "invocations (Invoke new payload # evs) = (new, payload) # invocations evs"
| "invocations (_ # evs) = invocations evs"

section \<open>Example collaborators\<close>

text \<open>
  Concrete collaborators for running the model. The decoder knows four documents: two
  well-formed envelopes with a supported tag, one with the tag \<open>unknown\<close>, and one whose
  nested document cannot be encoded again (the nested document is \<open>False\<close>); every other
  input is malformed. The Azure constructor fails; the others return handle \<open>1\<close>.
\<close>

definition example_unmarshal :: "string \<Rightarrow> error + bool StorageConfig" where
  "example_unmarshal config =
     (if config = ''type: s3'' then Inr \<lparr>Type = ''s3'', Config = True\<rparr>
      else if config = ''type: aZuRe'' then Inr \<lparr>Type = ''aZuRe'', Config = True\<rparr>
      else if config = ''type: unknown'' then Inr \<lparr>Type = ''unknown'', Config = True\<rparr>
      else if config = ''type: gcs'' then Inr \<lparr>Type = ''gcs'', Config = False\<rparr>
      else Inl (External ''yaml: unmarshal errors''))"

definition example_marshal :: "bool \<Rightarrow> error + string" where
  "example_marshal doc = (if doc then Inr ''{}'' else Inl (External ''yaml: cannot marshal''))"

definition example_construct :: "constructor \<Rightarrow> string \<Rightarrow> nat option \<times> error option" where
  "example_construct new payload =
     (if new = NewAzureStorage then (None, Some (External ''missing credentials''))
      else (Some 1, None))"

definition example_env :: "string \<Rightarrow> (bool, nat) collaborators" where
  "example_env clusterID =
     \<lparr> UnmarshalStrict = example_unmarshal,
       Marshal = example_marshal,
       GetClusterID = clusterID,
       UnicodeToUpper = (\<lambda>s. s),
       construct = example_construct \<rparr>"

definition example_namespaces :: "string \<Rightarrow> NamespaceInterface" where
  "example_namespaces uid name =
     (if name = ''kube-system'' then Inr uid else Inl (External ''namespace not found''))"

definition failing_namespaces :: NamespaceInterface where
  "failing_namespaces name = Inl (External ''connection refused'')"

section \<open>Path normalisation: properties\<close>

lemma LastIndex_absent: "c \<notin> set s \<Longrightarrow> LastIndex s [c] = - 1"
  by (induction s) (auto simp: Let_def)

lemma LastIndex_last: "c \<notin> set n \<Longrightarrow> LastIndex (p @ c # n) [c] = int (length p)"
  by (induction p) (auto simp: Let_def LastIndex_absent)

lemma trimName_no_separator: "CHR ''/'' \<notin> set s \<Longrightarrow> trimName s = Inr s"
  by (simp add: trimName_def LastIndex_absent)

lemma trimName_after_last:
  assumes "CHR ''/'' \<notin> set n"
  shows "trimName (p @ CHR ''/'' # n) = Inr n"
proof -
  have i: "LastIndex (p @ CHR ''/'' # n) ''/'' = int (length p)"
    using assms by (rule LastIndex_last)
  have "nat (int (length p) + 1) = Suc (length p)" by simp
  then have "slice_from (p @ CHR ''/'' # n) (int (length p) + 1) = Inr n"
    by (simp add: slice_from_def)
  with i show ?thesis by (simp add: trimName_def)
qed

lemma trimLeading_total:
  "trimLeading s = Inr (if s \<noteq> [] \<and> hd s = CHR ''/'' then tl s else s)"
  by (cases s) (auto simp: trimLeading_def index_at_def slice_from_def)

text \<open>
  C2, as the code has it. \<open>trimLeading\<close> never panics and removes one leading separator
  only, so applying it twice gives the result of applying it once exactly when the
  input does not begin with two separators.
\<close>

theorem trimLeading_idempotent_iff:
  "\<exists>r. trimLeading s = Inr r \<and> (trimLeading r = Inr r) = (take 2 s \<noteq> ''//'')"
proof (cases s)
  case Nil
  then show ?thesis by (simp add: trimLeading_total)
next
  case (Cons a t)
  then show ?thesis by (cases t) (auto simp: trimLeading_total)
qed

text \<open>
  C2 as stated fails: \<open>trimLeading "//a"\<close> is \<open>"/a"\<close>, and \<open>trimLeading "/a"\<close> is \<open>"a"\<close>,
  not \<open>"/a"\<close>.
\<close>

theorem trimLeading_not_idempotent:
  "trimLeading ''//a'' = Inr ''/a'' \<and> trimLeading ''/a'' \<noteq> Inr ''/a''"
  by (simp add: trimLeading_total)

text \<open>
  C9. \<open>trimName\<close> never panics. A string without a separator is returned unchanged; a
  string with one splits at its last separator as \<open>p @ "/" @ n\<close>, \<open>n\<close> free of
  separators, and \<open>n\<close> is returned.
\<close>

theorem trimName_base_name:
  "(CHR ''/'' \<notin> set s \<longrightarrow> trimName s = Inr s) \<and>
   (CHR ''/'' \<in> set s \<longrightarrow>
      (\<exists>p n. s = p @ CHR ''/'' # n \<and> CHR ''/'' \<notin> set n \<and> trimName s = Inr n))"
proof (intro conjI impI)
  assume "CHR ''/'' \<notin> set s"
  then show "trimName s = Inr s" by (rule trimName_no_separator)
next
  assume "CHR ''/'' \<in> set s"
  then obtain p n where s: "s = p @ CHR ''/'' # n" and n: "CHR ''/'' \<notin> set n"
    using split_list_last [of "CHR ''/''" s] by auto
  from n have "trimName s = Inr n" unfolding s by (rule trimName_after_last)
  with s n show "\<exists>p n. s = p @ CHR ''/'' # n \<and> CHR ''/'' \<notin> set n \<and> trimName s = Inr n"
    by auto
qed

text \<open>The examples of C9: \<open>trimName "a/b/c" = "c"\<close> and \<open>trimName "c" = "c"\<close>.\<close>

theorem trimName_base_name_witness:
  "CHR ''/'' \<in> set ''a/b/c'' \<and> trimName ''a/b/c'' = Inr ''c'' \<and>
   CHR ''/'' \<notin> set ''c'' \<and> trimName ''c'' = Inr ''c''"
proof -
  have a: "CHR ''/'' \<in> set ''a/b/c''" by simp
  with trimName_base_name [of "''a/b/c''"]
  obtain p n where s: "''a/b/c'' = p @ CHR ''/'' # n" and n: "CHR ''/'' \<notin> set n"
    and r: "trimName ''a/b/c'' = Inr n" by auto
  have "trimName ''a/b/c'' = Inr ''c''"
    by (simp add: trimName_def slice_from_def Let_def)
  moreover have c: "CHR ''/'' \<notin> set ''c''" by simp
  moreover from c trimName_base_name [of "''c''"] have "trimName ''c'' = Inr ''c''" by simp
  ultimately show ?thesis using a by simp
qed

text \<open>
  C10. The result of \<open>trimName\<close> never contains the separator, so \<open>trimName\<close> applied to
  its own result returns it unchanged, for every input.
\<close>

theorem trimName_idempotent:
  "\<exists>r. trimName s = Inr r \<and> CHR ''/'' \<notin> set r \<and> trimName r = Inr r"
proof (cases "CHR ''/'' \<in> set s")
  case False
  then have "trimName s = Inr s" by (rule trimName_no_separator)
  with False show ?thesis by simp
next
  case True
  then obtain p n where s: "s = p @ CHR ''/'' # n" and n: "CHR ''/'' \<notin> set n"
    using split_list_last [of "CHR ''/''" s] by auto
  from n have "trimName s = Inr n" unfolding s by (rule trimName_after_last)
  moreover from n have "trimName n = Inr n" by (rule trimName_no_separator)
  ultimately show ?thesis using n by simp
qed

section \<open>Cluster identifier: properties\<close>

lemma slice_to_eq:
  "slice_to s (int n) = (if n \<le> length s then Inr (take n s) else Inl (SliceBoundsOutOfRange (int n) (length s)))"
  by (simp add: slice_to_def)

lemma getClusterIdentifier_lookup_error:
  "namespaces ''kube-system'' = Inl err \<Longrightarrow>
   getClusterIdentifier env namespaces =
     ([LogErrorf (''Unable to get kube-system namespace: '' @ Error err)], Inr [])"
  by (simp add: getClusterIdentifier_def)

lemma getClusterIdentifier_with_id:
  "namespaces ''kube-system'' = Inr uid \<Longrightarrow> GetClusterID env \<noteq> [] \<Longrightarrow>
   getClusterIdentifier env namespaces =
     ([], if 5 \<le> length uid then Inr (take 5 uid @ ''-'' @ GetClusterID env)
          else Inl (SliceBoundsOutOfRange 5 (length uid)))"
  using slice_to_eq [of uid 5] by (simp add: getClusterIdentifier_def)

lemma getClusterIdentifier_without_id:
  "namespaces ''kube-system'' = Inr uid \<Longrightarrow> GetClusterID env = [] \<Longrightarrow>
   getClusterIdentifier env namespaces =
     ([], if 10 \<le> length uid then Inr (take 10 uid)
          else Inl (SliceBoundsOutOfRange 10 (length uid)))"
  using slice_to_eq [of uid 10] by (simp add: getClusterIdentifier_def)

lemma getClusterIdentifier_invocations:
  "invocations (fst (getClusterIdentifier env namespaces)) = []"
  by (simp add: getClusterIdentifier_def Let_def split: sum.splits)

lemma example_env_simps:
  "GetClusterID (example_env c) = c"
  "UnmarshalStrict (example_env c) = example_unmarshal"
  "Marshal (example_env c) = example_marshal"
  "UnicodeToUpper (example_env c) = (\<lambda>s. s)"
  "construct (example_env c) = example_construct"
  by (simp_all add: example_env_def)

lemma example_namespaces_kube_system:
  "example_namespaces uid ''kube-system'' = Inr uid"
  by (simp add: example_namespaces_def)

text \<open>
  C4. With the lookup of \<open>kube-system\<close> giving a UID: if the configured cluster id is not
  empty and the UID has 5 characters, the identifier is the first 5 characters of the
  UID, then \<open>-\<close>, then the cluster id; if the cluster id is empty and the UID has 10
  characters, the identifier is the first 10 characters of the UID. Nothing is logged.
\<close>

theorem getClusterIdentifier_derivation:
  assumes "namespaces ''kube-system'' = Inr uid"
  shows "(GetClusterID env \<noteq> [] \<and> 5 \<le> length uid \<longrightarrow>
            getClusterIdentifier env namespaces =
              ([], Inr (take 5 uid @ ''-'' @ GetClusterID env))) \<and>
         (GetClusterID env = [] \<and> 10 \<le> length uid \<longrightarrow>
            getClusterIdentifier env namespaces = ([], Inr (take 10 uid)))"
  using assms
  by (simp add: getClusterIdentifier_with_id getClusterIdentifier_without_id)

text \<open>
  The examples of C4: cluster id \<open>prod\<close> and UID \<open>abcdefghijklmnop\<close> give \<open>abcde-prod\<close>;
  the empty cluster id and the same UID give \<open>abcdefghij\<close>.
\<close>

theorem getClusterIdentifier_derivation_witness:
  "getClusterIdentifier (example_env ''prod'') (example_namespaces ''abcdefghijklmnop'')
     = ([], Inr ''abcde-prod'') \<and>
   getClusterIdentifier (example_env []) (example_namespaces ''abcdefghijklmnop'')
     = ([], Inr ''abcdefghij'')"
  using getClusterIdentifier_derivation
          [where namespaces = "example_namespaces ''abcdefghijklmnop''"
             and uid = "''abcdefghijklmnop''" and env = "example_env ''prod''"]
        getClusterIdentifier_derivation
          [where namespaces = "example_namespaces ''abcdefghijklmnop''"
             and uid = "''abcdefghijklmnop''" and env = "example_env []"]
  by (simp add: example_env_simps example_namespaces_kube_system)

text \<open>
  C1, as the code has it. With the lookup giving a UID and \<open>n\<close> the slice length (5
  when the cluster id is not empty, 10 when it is), \<open>getClusterIdentifier\<close> returns
  exactly when the UID has at least \<open>n\<close> characters, and then the identifier starts with
  exactly \<open>n\<close> characters of the UID; a shorter UID is not truncated: the slice
  expression panics with slice bounds out of range.
\<close>

theorem getClusterIdentifier_slice_bounds:
  assumes "namespaces ''kube-system'' = Inr uid"
      and "n = (if GetClusterID env = [] then 10 else 5)"
  shows "((\<exists>r. snd (getClusterIdentifier env namespaces) = Inr r) \<longleftrightarrow> n \<le> length uid) \<and>
         (n \<le> length uid \<longrightarrow>
            snd (getClusterIdentifier env namespaces)
              = Inr (take n uid @ (if GetClusterID env = [] then [] else ''-'' @ GetClusterID env)) \<and>
            length (take n uid) = n) \<and>
         (length uid < n \<longrightarrow>
            snd (getClusterIdentifier env namespaces)
              = Inl (SliceBoundsOutOfRange (int n) (length uid)))"
proof (cases "GetClusterID env = []")
  case True
  with assms show ?thesis by (auto simp: getClusterIdentifier_without_id)
next
  case False
  with assms show ?thesis by (auto simp: getClusterIdentifier_with_id)
qed

theorem getClusterIdentifier_slice_bounds_witness:
  "snd (getClusterIdentifier (example_env ''prod'') (example_namespaces ''abcdefghijklmnop''))
     = Inr ''abcde-prod'' \<and>
   snd (getClusterIdentifier (example_env []) (example_namespaces ''abcdefghi''))
     = Inl (SliceBoundsOutOfRange 10 9)"
  using getClusterIdentifier_slice_bounds
          [where namespaces = "example_namespaces ''abcdefghijklmnop''"
             and uid = "''abcdefghijklmnop''" and env = "example_env ''prod''" and n = 5]
        getClusterIdentifier_slice_bounds
          [where namespaces = "example_namespaces ''abcdefghi''"
             and uid = "''abcdefghi''" and env = "example_env []" and n = 10]
  by (simp add: example_env_simps example_namespaces_kube_system)

text \<open>
  C1 as stated fails: with the UID \<open>ab\<close> the slice \<open>[:10]\<close> (empty cluster id) and the
  slice \<open>[:5]\<close> (cluster id \<open>prod\<close>) both panic.
\<close>

theorem getClusterIdentifier_short_uid_panics:
  "snd (getClusterIdentifier (example_env []) (example_namespaces ''ab''))
     = Inl (SliceBoundsOutOfRange 10 2) \<and>
   snd (getClusterIdentifier (example_env ''prod'') (example_namespaces ''ab''))
     = Inl (SliceBoundsOutOfRange 5 2)"
  by (simp add: getClusterIdentifier_def example_env_simps example_namespaces_def slice_to_def)

section \<open>Decoding and provider dispatch: properties\<close>

lemma NewBucketStorage_unmarshal_error:
  "UnmarshalStrict env config = Inl err \<Longrightarrow>
   NewBucketStorage env namespaces config =
     ([], Inr (None, Some (Wrap err ''parsing config YAML file'')))"
  by (simp add: NewBucketStorage_def)

lemma NewBucketStorage_marshal_error:
  "UnmarshalStrict env config = Inr sc \<Longrightarrow> Marshal env (Config sc) = Inl err \<Longrightarrow>
   NewBucketStorage env namespaces config =
     ([], Inr (None, Some (Wrap err ''marshal content of storage configuration'')))"
  by (simp add: NewBucketStorage_def)

lemma NewBucketStorage_panic:
  "UnmarshalStrict env config = Inr sc \<Longrightarrow> Marshal env (Config sc) = Inr payload \<Longrightarrow>
   getClusterIdentifier env namespaces = (logged, Inl p) \<Longrightarrow>
   NewBucketStorage env namespaces config = (logged, Inl p)"
  by (simp add: NewBucketStorage_def)

lemma NewBucketStorage_default:
  "UnmarshalStrict env config = Inr sc \<Longrightarrow> Marshal env (Config sc) = Inr payload \<Longrightarrow>
   getClusterIdentifier env namespaces = (logged, Inr clusterID) \<Longrightarrow>
   provider_case (ToUpper (UnicodeToUpper env) (Type sc)) = None \<Longrightarrow>
   NewBucketStorage env namespaces config =
     (logged @ [Println clusterID],
      Inr (None, Some (Errorf (''storage with type '' @ Type sc @ '' is not supported''))))"
  by (simp add: NewBucketStorage_def)

lemma NewBucketStorage_constructor_error:
  "UnmarshalStrict env config = Inr sc \<Longrightarrow> Marshal env (Config sc) = Inr payload \<Longrightarrow>
   getClusterIdentifier env namespaces = (logged, Inr clusterID) \<Longrightarrow>
   provider_case (ToUpper (UnicodeToUpper env) (Type sc)) = Some new \<Longrightarrow>
   construct env new payload = (storage, Some err) \<Longrightarrow>
   NewBucketStorage env namespaces config =
     (logged @ [Println clusterID, Invoke new payload],
      Inr (None, Some (Wrap err (''create '' @ Type sc @ '' client''))))"
  by (simp add: NewBucketStorage_def)

lemma NewBucketStorage_constructed:
  "UnmarshalStrict env config = Inr sc \<Longrightarrow> Marshal env (Config sc) = Inr payload \<Longrightarrow>
   getClusterIdentifier env namespaces = (logged, Inr clusterID) \<Longrightarrow>
   provider_case (ToUpper (UnicodeToUpper env) (Type sc)) = Some new \<Longrightarrow>
   construct env new payload = (storage, None) \<Longrightarrow>
   NewBucketStorage env namespaces config =
     (logged @ [Println clusterID, Invoke new payload], Inr (storage, None))"
  by (simp add: NewBucketStorage_def)

lemma invocations_append: "invocations (xs @ ys) = invocations xs @ invocations ys"
  by (induction xs rule: invocations.induct) simp_all

lemma getClusterIdentifier_logged:
  "getClusterIdentifier env namespaces = (logged, r) \<Longrightarrow> invocations logged = []"
  using getClusterIdentifier_invocations [of env namespaces] by simp

lemma provider_case_Some:
  "provider_case tag = Some new \<longleftrightarrow>
     (tag = ''S3'' \<and> new = NewS3Storage) \<or> (tag = ''GCS'' \<and> new = NewGCSStorage) \<or>
     (tag = ''AZURE'' \<and> new = NewAzureStorage)"
  by (auto simp: provider_case_def S3_def GCS_def AZURE_def)

lemma provider_case_None:
  "provider_case tag = None \<longleftrightarrow> tag \<notin> {''S3'', ''GCS'', ''AZURE''}"
  by (auto simp: provider_case_def S3_def GCS_def AZURE_def)

lemma NewBucketStorage_invocations_selected:
  assumes "UnmarshalStrict env config = Inr sc" "Marshal env (Config sc) = Inr payload"
      and "getClusterIdentifier env namespaces = (logged, Inr clusterID)"
      and "provider_case (ToUpper (UnicodeToUpper env) (Type sc)) = Some new"
  shows "invocations (fst (NewBucketStorage env namespaces config)) = [(new, payload)]"
proof (cases "construct env new payload")
  case (Pair storage err)
  from assms(3) have l: "invocations logged = []" by (rule getClusterIdentifier_logged)
  show ?thesis
  proof (cases err)
    case None
    with Pair assms l show ?thesis
      by (simp add: NewBucketStorage_constructed invocations_append)
  next
    case (Some e)
    with Pair assms l show ?thesis
      by (simp add: NewBucketStorage_constructor_error invocations_append)
  qed
qed

text \<open>
  C6, as the code has it. For an envelope that decodes and whose nested document
  encodes again: when \<open>getClusterIdentifier\<close> returns, the switch is reached, and a tag
  whose upper-case form is \<open>S3\<close>, \<open>GCS\<close> or \<open>AZURE\<close> has exactly the matching constructor
  invoked, once, with the encoded nested document, whatever the letter case of the tag;
  when \<open>getClusterIdentifier\<close> panics, \<open>NewBucketStorage\<close> panics before the switch and
  no constructor is invoked, whatever the tag.
\<close>

theorem NewBucketStorage_dispatch_case_insensitive:
  assumes "UnmarshalStrict env config = Inr sc" "Marshal env (Config sc) = Inr payload"
      and "getClusterIdentifier env namespaces = (logged, r)"
  shows "(\<forall>clusterID. r = Inr clusterID \<longrightarrow>
            (ToUpper (UnicodeToUpper env) (Type sc) = ''S3'' \<longrightarrow>
               invocations (fst (NewBucketStorage env namespaces config))
                 = [(NewS3Storage, payload)]) \<and>
            (ToUpper (UnicodeToUpper env) (Type sc) = ''GCS'' \<longrightarrow>
               invocations (fst (NewBucketStorage env namespaces config))
                 = [(NewGCSStorage, payload)]) \<and>
            (ToUpper (UnicodeToUpper env) (Type sc) = ''AZURE'' \<longrightarrow>
               invocations (fst (NewBucketStorage env namespaces config))
                 = [(NewAzureStorage, payload)])) \<and>
         (\<forall>p. r = Inl p \<longrightarrow>
            NewBucketStorage env namespaces config = (logged, Inl p) \<and>
            invocations (fst (NewBucketStorage env namespaces config)) = [])"
proof (cases r)
  case (Inl p)
  with assms have "NewBucketStorage env namespaces config = (logged, Inl p)"
    by (simp add: NewBucketStorage_panic)
  moreover from assms(3) have "invocations logged = []" by (rule getClusterIdentifier_logged)
  ultimately show ?thesis using Inl by simp
next
  case (Inr clusterID)
  with assms show ?thesis
    by (simp add: NewBucketStorage_invocations_selected provider_case_Some)
qed

lemma example_unmarshal_simps:
  "example_unmarshal ''type: s3'' = Inr \<lparr>Type = ''s3'', Config = True\<rparr>"
  "example_unmarshal ''type: aZuRe'' = Inr \<lparr>Type = ''aZuRe'', Config = True\<rparr>"
  "example_unmarshal ''type: unknown'' = Inr \<lparr>Type = ''unknown'', Config = True\<rparr>"
  "example_unmarshal ''type: gcs'' = Inr \<lparr>Type = ''gcs'', Config = False\<rparr>"
  "example_unmarshal ''type s3'' = Inl (External ''yaml: unmarshal errors'')"
  by (simp_all add: example_unmarshal_def)

lemma example_marshal_simps:
  "example_marshal True = Inr ''{}''"
  "example_marshal False = Inl (External ''yaml: cannot marshal'')"
  by (simp_all add: example_marshal_def)

lemma example_ToUpper:
  "ToUpper (\<lambda>s. s) ''s3'' = ''S3''"
  "ToUpper (\<lambda>s. s) ''aZuRe'' = ''AZURE''"
  "ToUpper (\<lambda>s. s) ''gcs'' = ''GCS''"
  "ToUpper (\<lambda>s. s) ''unknown'' = ''UNKNOWN''"
  by code_simp+

lemma example_identifier:
  "getClusterIdentifier (example_env []) (example_namespaces ''abcdefghijklmnop'')
     = ([], Inr ''abcdefghij'')"
  by (simp add: getClusterIdentifier_without_id [where uid = "''abcdefghijklmnop''"]
        example_env_simps example_namespaces_kube_system)

lemma example_identifier_panic:
  "getClusterIdentifier (example_env []) (example_namespaces ''abc'')
     = ([], Inl (SliceBoundsOutOfRange 10 3))"
  "getClusterIdentifier (example_env []) (example_namespaces ''ab'')
     = ([], Inl (SliceBoundsOutOfRange 10 2))"
  by (simp_all add: getClusterIdentifier_def example_env_simps example_namespaces_def
        slice_to_def)

text \<open>
  With a UID of 16 characters the tags \<open>s3\<close> and \<open>aZuRe\<close> reach \<open>NewS3Storage\<close> and
  \<open>NewAzureStorage\<close>; with the UID \<open>abc\<close> the tag \<open>s3\<close> reaches no constructor.
\<close>

theorem NewBucketStorage_dispatch_case_insensitive_witness:
  "ToUpper (\<lambda>s. s) ''s3'' = ''S3'' \<and>
   invocations (fst (NewBucketStorage (example_env [])
       (example_namespaces ''abcdefghijklmnop'') ''type: s3'')) = [(NewS3Storage, ''{}'')] \<and>
   ToUpper (\<lambda>s. s) ''aZuRe'' = ''AZURE'' \<and>
   invocations (fst (NewBucketStorage (example_env [])
       (example_namespaces ''abcdefghijklmnop'') ''type: aZuRe'')) = [(NewAzureStorage, ''{}'')] \<and>
   NewBucketStorage (example_env []) (example_namespaces ''abc'') ''type: s3''
     = ([], Inl (SliceBoundsOutOfRange 10 3))"
  using NewBucketStorage_dispatch_case_insensitive
          [where env = "example_env []" and config = "''type: s3''"
             and sc = "\<lparr>Type = ''s3'', Config = True\<rparr>" and payload = "''{}''"
             and namespaces = "example_namespaces ''abcdefghijklmnop''"
             and logged = "[]" and r = "Inr ''abcdefghij''"]
        NewBucketStorage_dispatch_case_insensitive
          [where env = "example_env []" and config = "''type: aZuRe''"
             and sc = "\<lparr>Type = ''aZuRe'', Config = True\<rparr>" and payload = "''{}''"
             and namespaces = "example_namespaces ''abcdefghijklmnop''"
             and logged = "[]" and r = "Inr ''abcdefghij''"]
        NewBucketStorage_dispatch_case_insensitive
          [where env = "example_env []" and config = "''type: s3''"
             and sc = "\<lparr>Type = ''s3'', Config = True\<rparr>" and payload = "''{}''"
             and namespaces = "example_namespaces ''abc''"
             and logged = "[]" and r = "Inl (SliceBoundsOutOfRange 10 3)"]
  by (simp add: example_env_simps example_unmarshal_simps example_marshal_simps
        example_ToUpper example_identifier example_identifier_panic)

text \<open>
  C6 as stated fails: the tag \<open>s3\<close>, whose upper-case form is \<open>S3\<close>, in a well-formed
  envelope, with the UID \<open>ab\<close>: \<open>NewBucketStorage\<close> panics in \<open>getClusterIdentifier\<close> and
  \<open>NewS3Storage\<close> is not invoked.
\<close>

theorem NewBucketStorage_dispatch_short_uid_panics:
  "ToUpper (\<lambda>s. s) ''s3'' = ''S3'' \<and>
   NewBucketStorage (example_env []) (example_namespaces ''ab'') ''type: s3''
     = ([], Inl (SliceBoundsOutOfRange 10 2)) \<and>
   invocations (fst (NewBucketStorage (example_env []) (example_namespaces ''ab'') ''type: s3''))
     \<noteq> [(NewS3Storage, ''{}'')]"
  by (simp add: NewBucketStorage_def example_env_simps example_unmarshal_simps
        example_marshal_simps example_ToUpper example_identifier_panic)

text \<open>
  C7, as the code has it. For a decoded envelope (nested document encoded again) whose
  tag in upper case is none of \<open>S3\<close>, \<open>GCS\<close>, \<open>AZURE\<close>: no constructor is invoked and no
  handle is ever returned; when \<open>getClusterIdentifier\<close> returns, the switch is reached
  and the result is a nil handle with the error
  \<open>storage with type <tag> is not supported\<close>, the tag as written in the envelope; when
  \<open>getClusterIdentifier\<close> panics, \<open>NewBucketStorage\<close> panics and returns nothing.
\<close>

theorem NewBucketStorage_unsupported_provider:
  assumes "UnmarshalStrict env config = Inr sc" "Marshal env (Config sc) = Inr payload"
      and "ToUpper (UnicodeToUpper env) (Type sc) \<notin> {''S3'', ''GCS'', ''AZURE''}"
  shows "invocations (fst (NewBucketStorage env namespaces config)) = [] \<and>
         (\<forall>storage err. snd (NewBucketStorage env namespaces config) \<noteq> Inr (Some storage, err)) \<and>
         (\<forall>logged clusterID.
            getClusterIdentifier env namespaces = (logged, Inr clusterID) \<longrightarrow>
            NewBucketStorage env namespaces config =
              (logged @ [Println clusterID],
               Inr (None, Some (Errorf
                 (''storage with type '' @ Type sc @ '' is not supported''))))) \<and>
         (\<forall>logged p.
            getClusterIdentifier env namespaces = (logged, Inl p) \<longrightarrow>
            NewBucketStorage env namespaces config = (logged, Inl p))"
proof -
  from assms(3) have none: "provider_case (ToUpper (UnicodeToUpper env) (Type sc)) = None"
    by (simp add: provider_case_None)
  obtain logged r where g: "getClusterIdentifier env namespaces = (logged, r)"
    by (cases "getClusterIdentifier env namespaces")
  then have l: "invocations logged = []" by (rule getClusterIdentifier_logged)
  show ?thesis
  proof (cases r)
    case (Inl p)
    with g assms(1,2) l show ?thesis by (simp add: NewBucketStorage_panic)
  next
    case (Inr clusterID)
    with g assms(1,2) none l show ?thesis
      by (simp add: NewBucketStorage_default invocations_append)
  qed
qed

text \<open>
  With a UID of 16 characters the tag \<open>unknown\<close> is rejected by name; with the UID \<open>abc\<close>
  the run panics.
\<close>

theorem NewBucketStorage_unsupported_provider_witness:
  "ToUpper (\<lambda>s. s) ''unknown'' \<notin> {''S3'', ''GCS'', ''AZURE''} \<and>
   NewBucketStorage (example_env []) (example_namespaces ''abcdefghijklmnop'') ''type: unknown''
     = ([Println ''abcdefghij''],
        Inr (None, Some (Errorf ''storage with type unknown is not supported''))) \<and>
   NewBucketStorage (example_env []) (example_namespaces ''abc'') ''type: unknown''
     = ([], Inl (SliceBoundsOutOfRange 10 3))"
  using NewBucketStorage_unsupported_provider
          [where env = "example_env []" and config = "''type: unknown''"
             and sc = "\<lparr>Type = ''unknown'', Config = True\<rparr>" and payload = "''{}''"
             and namespaces = "example_namespaces ''abcdefghijklmnop''"]
        NewBucketStorage_unsupported_provider
          [where env = "example_env []" and config = "''type: unknown''"
             and sc = "\<lparr>Type = ''unknown'', Config = True\<rparr>" and payload = "''{}''"
             and namespaces = "example_namespaces ''abc''"]
  by (simp add: example_env_simps example_unmarshal_simps example_marshal_simps
        example_ToUpper example_identifier example_identifier_panic)

text \<open>
  C7 as stated fails: the well-formed envelope with the tag \<open>unknown\<close> and the UID \<open>ab\<close>:
  \<open>NewBucketStorage\<close> panics in \<open>getClusterIdentifier\<close> and returns no error naming the
  tag.
\<close>

theorem NewBucketStorage_unsupported_short_uid_panics:
  "ToUpper (\<lambda>s. s) ''unknown'' \<notin> {''S3'', ''GCS'', ''AZURE''} \<and>
   NewBucketStorage (example_env []) (example_namespaces ''ab'') ''type: unknown''
     = ([], Inl (SliceBoundsOutOfRange 10 2)) \<and>
   snd (NewBucketStorage (example_env []) (example_namespaces ''ab'') ''type: unknown'')
     \<noteq> Inr (None, Some (Errorf ''storage with type unknown is not supported''))"
  by (simp add: NewBucketStorage_def example_env_simps example_unmarshal_simps
        example_marshal_simps example_ToUpper example_identifier_panic)

text \<open>
  C3, as the code has it. An envelope that \<^verbatim>\<open>yaml.UnmarshalStrict\<close> rejects gives a
  nil handle and its error wrapped with \<open>parsing config YAML file\<close>; a nested document
  that \<^verbatim>\<open>yaml.Marshal\<close> rejects gives a nil handle and its error wrapped with
  \<open>marshal content of storage configuration\<close>. In both cases the run has no event: no
  constructor is called.
\<close>

theorem NewBucketStorage_decode_errors:
  "(\<forall>err. UnmarshalStrict env config = Inl err \<longrightarrow>
      NewBucketStorage env namespaces config =
        ([], Inr (None, Some (Wrap err ''parsing config YAML file'')))) \<and>
   (\<forall>sc err. UnmarshalStrict env config = Inr sc \<and> Marshal env (Config sc) = Inl err \<longrightarrow>
      NewBucketStorage env namespaces config =
        ([], Inr (None, Some (Wrap err ''marshal content of storage configuration''))))"
  by (simp add: NewBucketStorage_unmarshal_error NewBucketStorage_marshal_error)

text \<open>A malformed envelope, and an envelope whose nested document does not encode.\<close>

theorem NewBucketStorage_decode_errors_witness:
  "NewBucketStorage (example_env []) failing_namespaces ''type s3'' =
     ([], Inr (None, Some (Wrap (External ''yaml: unmarshal errors'')
                             ''parsing config YAML file''))) \<and>
   NewBucketStorage (example_env []) failing_namespaces ''type: gcs'' =
     ([], Inr (None, Some (Wrap (External ''yaml: cannot marshal'')
                             ''marshal content of storage configuration'')))"
  using NewBucketStorage_decode_errors
          [where env = "example_env []" and config = "''type s3''"
             and namespaces = failing_namespaces]
        NewBucketStorage_decode_errors
          [where env = "example_env []" and config = "''type: gcs''"
             and namespaces = failing_namespaces]
  by (simp add: example_env_simps example_unmarshal_simps example_marshal_simps)

text \<open>
  C3 as stated fails: on the same two inputs the errors do not carry the contexts
  \<open>parsing config document\<close> and \<open>marshal nested storage configuration\<close>.
\<close>

theorem NewBucketStorage_spec_contexts_absent:
  "NewBucketStorage (example_env []) failing_namespaces ''type s3'' \<noteq>
     ([], Inr (None, Some (Wrap (External ''yaml: unmarshal errors'')
                             ''parsing config document''))) \<and>
   NewBucketStorage (example_env []) failing_namespaces ''type: gcs'' \<noteq>
     ([], Inr (None, Some (Wrap (External ''yaml: cannot marshal'')
                             ''marshal nested storage configuration'')))"
  by (simp add: NewBucketStorage_def example_env_simps example_unmarshal_simps
        example_marshal_simps)

text \<open>The six ways through \<open>NewBucketStorage\<close>.\<close>

lemma NewBucketStorage_cases:
  obtains (unmarshal) err where "UnmarshalStrict env config = Inl err"
  | (marshal) sc err where "UnmarshalStrict env config = Inr sc"
      "Marshal env (Config sc) = Inl err"
  | (panic) sc payload logged p where "UnmarshalStrict env config = Inr sc"
      "Marshal env (Config sc) = Inr payload"
      "getClusterIdentifier env namespaces = (logged, Inl p)"
  | (default) sc payload logged clusterID where "UnmarshalStrict env config = Inr sc"
      "Marshal env (Config sc) = Inr payload"
      "getClusterIdentifier env namespaces = (logged, Inr clusterID)"
      "provider_case (ToUpper (UnicodeToUpper env) (Type sc)) = None"
  | (failed) sc payload logged clusterID new storage err where
      "UnmarshalStrict env config = Inr sc"
      "Marshal env (Config sc) = Inr payload"
      "getClusterIdentifier env namespaces = (logged, Inr clusterID)"
      "provider_case (ToUpper (UnicodeToUpper env) (Type sc)) = Some new"
      "construct env new payload = (storage, Some err)"
  | (constructed) sc payload logged clusterID new storage where
      "UnmarshalStrict env config = Inr sc"
      "Marshal env (Config sc) = Inr payload"
      "getClusterIdentifier env namespaces = (logged, Inr clusterID)"
      "provider_case (ToUpper (UnicodeToUpper env) (Type sc)) = Some new"
      "construct env new payload = (storage, None)"
proof (cases "UnmarshalStrict env config")
  case (Inl err)
  then show ?thesis by (rule unmarshal)
next
  case sc: (Inr sc)
  show ?thesis
  proof (cases "Marshal env (Config sc)")
    case (Inl err)
    with sc show ?thesis by (rule marshal)
  next
    case payload: (Inr payload)
    obtain logged r where g: "getClusterIdentifier env namespaces = (logged, r)"
      by (cases "getClusterIdentifier env namespaces")
    show ?thesis
    proof (cases r)
      case (Inl p)
      with g have "getClusterIdentifier env namespaces = (logged, Inl p)" by simp
      with sc payload show ?thesis by (rule panic)
    next
      case (Inr clusterID)
      with g have g': "getClusterIdentifier env namespaces = (logged, Inr clusterID)" by simp
      show ?thesis
      proof (cases "provider_case (ToUpper (UnicodeToUpper env) (Type sc))")
        case None
        with sc payload g' show ?thesis by (rule default)
      next
        case new: (Some new)
        obtain storage e where c: "construct env new payload = (storage, e)"
          by (cases "construct env new payload")
        show ?thesis
        proof (cases e)
          case None
          with c have "construct env new payload = (storage, None)" by simp
          with sc payload g' new show ?thesis by (rule constructed)
        next
          case (Some err)
          with c have "construct env new payload = (storage, Some err)" by simp
          with sc payload g' new show ?thesis by (rule failed)
        qed
      qed
    qed
  qed
qed





text \<open>
  C5. When the lookup of \<open>kube-system\<close> fails, \<open>getClusterIdentifier\<close> logs the failure
  and returns the empty string; \<open>NewBucketStorage\<close> then does not panic, and after a
  successful decode it goes on: it prints the empty identifier and invokes the
  constructor that the tag selects (none for an unsupported tag).
\<close>

theorem getClusterIdentifier_lookup_failure:
  assumes "namespaces ''kube-system'' = Inl err"
  shows "getClusterIdentifier env namespaces =
           ([LogErrorf (''Unable to get kube-system namespace: '' @ Error err)], Inr []) \<and>
         (\<exists>r. snd (NewBucketStorage env namespaces config) = Inr r) \<and>
         (\<forall>sc payload.
            UnmarshalStrict env config = Inr sc \<and> Marshal env (Config sc) = Inr payload \<longrightarrow>
            take 2 (fst (NewBucketStorage env namespaces config)) =
              [LogErrorf (''Unable to get kube-system namespace: '' @ Error err), Println []] \<and>
            invocations (fst (NewBucketStorage env namespaces config)) =
              (case provider_case (ToUpper (UnicodeToUpper env) (Type sc)) of
                 None \<Rightarrow> [] | Some new \<Rightarrow> [(new, payload)]))"
proof -
  let ?log = "LogErrorf (''Unable to get kube-system namespace: '' @ Error err)"
  from assms have g: "getClusterIdentifier env namespaces = ([?log], Inr [])"
    by (rule getClusterIdentifier_lookup_error)
  show ?thesis
  proof (cases rule: NewBucketStorage_cases [where env = env and config = config and namespaces = namespaces])
    case (unmarshal err)
    with g show ?thesis by (simp add: NewBucketStorage_unmarshal_error)
  next
    case (marshal sc err)
    with g show ?thesis by (simp add: NewBucketStorage_marshal_error)
  next
    case (panic sc payload logged p)
    with g show ?thesis by simp
  next
    case (default sc payload logged clusterID)
    with g show ?thesis by (simp add: NewBucketStorage_default)
  next
    case (failed sc payload logged clusterID new storage err)
    with g show ?thesis by (simp add: NewBucketStorage_constructor_error)
  next
    case (constructed sc payload logged clusterID new storage)
    with g show ?thesis by (simp add: NewBucketStorage_constructed)
  qed
qed

text \<open>With a refused connection, the tag \<open>s3\<close> still reaches \<open>NewS3Storage\<close>.\<close>

theorem getClusterIdentifier_lookup_failure_witness:
  "failing_namespaces ''kube-system'' = Inl (External ''connection refused'') \<and>
   getClusterIdentifier (example_env ''prod'') failing_namespaces =
     ([LogErrorf ''Unable to get kube-system namespace: connection refused''], Inr []) \<and>
   invocations (fst (NewBucketStorage (example_env ''prod'') failing_namespaces ''type: s3''))
     = [(NewS3Storage, ''{}'')]"
  using getClusterIdentifier_lookup_failure
          [where namespaces = failing_namespaces and err = "External ''connection refused''"
             and env = "example_env ''prod''" and config = "''type: s3''"]
  by (simp add: failing_namespaces_def example_env_simps example_unmarshal_simps
        example_marshal_simps example_ToUpper provider_case_def S3_def)

end
